theory Spec2Isabelle
  imports Main
begin

section \<open>Gmail account records: the token store\<close>

text \<open>
  The embedding follows \<^verbatim>\<open>src/server/app/main/services/email.py\<close> (class
  \<^verbatim>\<open>GmailService\<close>). The document database is the path
  \<^verbatim>\<open>users/<uid>/gmailAccounts/<account_id>\<close>; a document is a Python dict from
  field names to values.
\<close>

text \<open>
  Field values. \<open>Null\<close> is Python's \<^verbatim>\<open>None\<close>. A point in time is a number of
  seconds. \<open>ServerTime t\<close> is what the store writes for the \<^verbatim>\<open>SERVER_TIMESTAMP\<close>
  sentinel when the write happens at time \<open>t\<close>. \<open>IsoTime t\<close> stands for the string
  \<^verbatim>\<open>t.isoformat()\<close> and \<open>PlainTime t\<close> for the string \<^verbatim>\<open>str(t)\<close> of a datetime
  \<open>t\<close>: the first separates date and time with a \<^verbatim>\<open>T\<close>, the second with a blank,
  so the two strings differ for every datetime.
\<close>

datatype fval = Null | Str string | ServerTime nat | IsoTime nat | PlainTime nat

text \<open>Python truthiness of a field value: \<^verbatim>\<open>None\<close> and the empty string are falsy.\<close>

fun truthy :: "fval \<Rightarrow> bool" where
  "truthy Null = False"
| "truthy (Str s) = (s \<noteq> [])"
| "truthy (ServerTime t) = True"
| "truthy (IsoTime t) = True"
| "truthy (PlainTime t) = True"

text \<open>\<^verbatim>\<open>a or b\<close>\<close>

definition py_or :: "fval \<Rightarrow> fval \<Rightarrow> fval" where
  "py_or a b = (if truthy a then a else b)"

type_synonym doc = "string \<rightharpoonup> fval"

text \<open>\<^verbatim>\<open>data.get(key)\<close>: \<^verbatim>\<open>None\<close> for a missing key.\<close>

definition dict_get :: "doc \<Rightarrow> string \<Rightarrow> fval" where
  "dict_get data k = (case data k of None \<Rightarrow> Null | Some v \<Rightarrow> v)"

text \<open>
  A document reference is the pair (owner uid, account id). The store lists its
  documents in the order in which a scan of the collection group
  \<^verbatim>\<open>gmailAccounts\<close> streams them.
\<close>

type_synonym docref = "string \<times> string"
type_synonym store = "(docref \<times> doc) list"

text \<open>\<^verbatim>\<open>doc_ref.get()\<close>: the snapshot; \<open>None\<close> when the document does not exist.\<close>

definition snapshot :: "store \<Rightarrow> docref \<Rightarrow> doc option" where
  "snapshot st r = map_of st r"

text \<open>\<^verbatim>\<open>doc_ref.get().to_dict() or {}\<close>\<close>

definition to_dict_or_empty :: "store \<Rightarrow> docref \<Rightarrow> doc" where
  "to_dict_or_empty st r = (case snapshot st r of None \<Rightarrow> Map.empty | Some d \<Rightarrow> d)"

text \<open>
  \<^verbatim>\<open>doc_ref.set(fields, merge=True)\<close>: the fields given are written over the
  document's, its other fields stay; a missing document is created.
\<close>

fun set_merge :: "store \<Rightarrow> docref \<Rightarrow> doc \<Rightarrow> store" where
  "set_merge [] r fields = [(r, fields)]"
| "set_merge ((r', d) # rest) r fields =
     (if r' = r then (r, d ++ fields) # rest else (r', d) # set_merge rest r fields)"

datatype exn =
    ValueError string
  | NotFound
  | ProviderError string

text \<open>\<^verbatim>\<open>doc_ref.update(fields)\<close>: as a merge, but a missing document raises.\<close>

definition doc_update :: "store \<Rightarrow> docref \<Rightarrow> doc \<Rightarrow> exn + store" where
  "doc_update st r fields =
     (case snapshot st r of None \<Rightarrow> Inl NotFound | Some d \<Rightarrow> Inr (set_merge st r fields))"

text \<open>\<^verbatim>\<open>doc_ref.delete()\<close>\<close>

definition doc_delete :: "store \<Rightarrow> docref \<Rightarrow> store" where
  "doc_delete st r = filter (\<lambda>e. fst e \<noteq> r) st"

section \<open>The OAuth provider and the credentials object\<close>

text \<open>
  The \<^verbatim>\<open>Credentials\<close> object of the OAuth library: the access token, the refresh
  token and the expiry (a datetime, or \<^verbatim>\<open>None\<close>).
\<close>

record credentials =
  token :: fval
  refresh_token :: fval
  expiry :: "nat option"

text \<open>
  The provider and the library around it are outside the repository and are parameters
  of the model: the authorization URL built for a state, the result of the code exchange
  (\<^verbatim>\<open>flow.fetch_token\<close>, by state and code), the e-mail address of the profile
  (\<^verbatim>\<open>profile.get("emailAddress")\<close>), the result of a refresh for a refresh token (the
  new access token and expiry), and the library's refresh threshold in seconds. The client
  configuration file that \<^verbatim>\<open>get_flow\<close> and the credentials constructor read is
  deployment data and is taken as readable.
\<close>

record provider =
  authorization_url :: "string \<Rightarrow> string"
  fetch_token :: "string \<Rightarrow> string \<Rightarrow> exn + credentials"
  get_profile :: "credentials \<Rightarrow> exn + string option"
  refresh_grant :: "fval \<Rightarrow> exn + (string \<times> nat option)"
  refresh_threshold :: nat

text \<open>The calls made to the provider, in order.\<close>

datatype call =
    FetchToken string string
  | GetProfile
  | Refresh fval

record world =
  docs :: store
  calls :: "call list"

text \<open>
  The library's \<^verbatim>\<open>Credentials.expired\<close> and \<^verbatim>\<open>Credentials.valid\<close>:
  \<^verbatim>\<open>
  expired: if not self.expiry: return False
           return utcnow() >= self.expiry - REFRESH_THRESHOLD
  valid:   return self.token is not None and not self.expired
  \<close>
\<close>

definition cred_expired :: "provider \<Rightarrow> nat \<Rightarrow> credentials \<Rightarrow> bool" where
  "cred_expired prov now c =
     (case expiry c of None \<Rightarrow> False | Some e \<Rightarrow> e \<le> now + refresh_threshold prov)"

definition cred_valid :: "provider \<Rightarrow> nat \<Rightarrow> credentials \<Rightarrow> bool" where
  "cred_valid prov now c = (token c \<noteq> Null \<and> \<not> cred_expired prov now c)"

text \<open>\<^verbatim>\<open>creds.expiry.isoformat() if getattr(creds, "expiry", None) else None\<close>\<close>

definition expiry_iso :: "credentials \<Rightarrow> fval" where
  "expiry_iso c = (case expiry c of None \<Rightarrow> Null | Some e \<Rightarrow> IsoTime e)"

text \<open>\<^verbatim>\<open>str(creds.expiry)\<close>\<close>

definition expiry_str :: "credentials \<Rightarrow> fval" where
  "expiry_str c = (case expiry c of None \<Rightarrow> Str ''None'' | Some e \<Rightarrow> PlainTime e)"

section \<open>Resolving an account\<close>

text \<open>
  \<^verbatim>\<open>_get_existing_account_id\<close>: the id of the first document of the caller's own
  collection (\<^verbatim>\<open>ref.limit(1).stream()\<close>), or \<^verbatim>\<open>None\<close>.
\<close>

definition get_existing_account_id :: "string \<Rightarrow> store \<Rightarrow> string option" where
  "get_existing_account_id uid st =
     (case filter (\<lambda>e. fst (fst e) = uid) st of
        [] \<Rightarrow> None
      | e # _ \<Rightarrow> Some (snd (fst e)))"

text \<open>The loop of \<^verbatim>\<open>_doc_ref_for_account\<close> over the collection group.\<close>

fun scan_for :: "string \<Rightarrow> store \<Rightarrow> docref option" where
  "scan_for account_id [] = None"
| "scan_for account_id (e # rest) =
     (if snd (fst e) = account_id then Some (fst e) else scan_for account_id rest)"

text \<open>
  \<^verbatim>\<open>_doc_ref_for_account\<close>: the document reference and the owner's uid, or
  \<^verbatim>\<open>(None, None)\<close>, here \<open>None\<close>.
\<close>

definition doc_ref_for_account :: "string \<Rightarrow> store \<Rightarrow> string \<Rightarrow> (docref \<times> string) option" where
  "doc_ref_for_account uid st account_id =
     (if uid \<noteq> [] \<and> snapshot st (uid, account_id) \<noteq> None
      then Some ((uid, account_id), uid)
      else (case scan_for account_id st of
              None \<Rightarrow> None
            | Some r \<Rightarrow> Some (r, fst r)))"

section \<open>The credential lifecycle\<close>

text \<open>
  \<^verbatim>\<open>_ensure_account_doc\<close>:
  \<^verbatim>\<open>doc_ref.set({"createdAt": build_timestamp()}, merge=True)\<close>, at server time
  \<open>now\<close>.
\<close>

definition ensure_account_doc :: "string \<Rightarrow> nat \<Rightarrow> store \<Rightarrow> string \<Rightarrow> store" where
  "ensure_account_doc uid now st account_id =
     set_merge st (uid, account_id) [''createdAt'' \<mapsto> ServerTime now]"

record auth_url_result =
  url :: string
  accountId :: string

text \<open>\<^verbatim>\<open>f"{self.uid}:{account_id}"\<close>\<close>

definition state_of :: "string \<Rightarrow> string \<Rightarrow> string" where
  "state_of uid account_id = uid @ '':'' @ account_id"

text \<open>
  \<^verbatim>\<open>get_auth_url\<close>. \<open>new_id\<close> is the value of \<^verbatim>\<open>str(uuid4())\<close>, drawn when that
  branch runs. An empty \<open>account_id\<close> is falsy, as \<^verbatim>\<open>None\<close> is.
\<close>

text \<open>The \<^verbatim>\<open>else\<close> branch of \<^verbatim>\<open>get_auth_url\<close> (no account id given).\<close>

definition reuse_or_create :: "string \<Rightarrow> nat \<Rightarrow> string \<Rightarrow> store \<Rightarrow> string \<times> store" where
  "reuse_or_create uid now new_id st =
     (case get_existing_account_id uid st of
        None \<Rightarrow> (new_id, ensure_account_doc uid now st new_id)
      | Some existing_id \<Rightarrow>
          if existing_id \<noteq> [] then (existing_id, st)
          else (new_id, ensure_account_doc uid now st new_id))"

definition get_auth_url ::
  "provider \<Rightarrow> string \<Rightarrow> nat \<Rightarrow> string \<Rightarrow> world \<Rightarrow> string option \<Rightarrow> auth_url_result \<times> world" where
  "get_auth_url prov uid now new_id w account_id =
     (let (aid, st) =
        (case account_id of
           None \<Rightarrow> reuse_or_create uid now new_id (docs w)
         | Some a \<Rightarrow>
             if a \<noteq> [] then (a, ensure_account_doc uid now (docs w) a)
             else reuse_or_create uid now new_id (docs w))
      in (\<lparr>url = authorization_url prov (state_of uid aid), accountId = aid\<rparr>,
          w\<lparr>docs := st\<rparr>))"

text \<open>
  Lines 145 to 158 of \<^verbatim>\<open>get_credentials\<close>, which lines 205 to 218 of
  \<^verbatim>\<open>get_service\<close> repeat word for word: the credentials object is built from the
  record's \<^verbatim>\<open>access_token\<close> and \<^verbatim>\<open>refresh_token\<close> (no \<^verbatim>\<open>expiry\<close> argument is
  passed, so the object's expiry is \<^verbatim>\<open>None\<close>), refreshed
  \<^verbatim>\<open>if not creds.valid or creds.expired\<close>, and the new token and expiry are written
  back with \<^verbatim>\<open>doc_ref.update\<close>. An exception of the refresh or of the update
  propagates.
\<close>

definition build_and_refresh ::
  "provider \<Rightarrow> nat \<Rightarrow> world \<Rightarrow> docref \<Rightarrow> doc \<Rightarrow> fval \<Rightarrow> (exn + credentials) \<times> world" where
  "build_and_refresh prov now w r data rt =
     (let creds = \<lparr>token = dict_get data ''access_token'', refresh_token = rt, expiry = None\<rparr>
      in if \<not> cred_valid prov now creds \<or> cred_expired prov now creds
         then (let w1 = w\<lparr>calls := calls w @ [Refresh (refresh_token creds)]\<rparr>
               in case refresh_grant prov (refresh_token creds) of
                    Inl e \<Rightarrow> (Inl e, w1)
                  | Inr (tok, exp) \<Rightarrow>
                      (let creds' = creds\<lparr>token := Str tok, expiry := exp\<rparr>
                       in case doc_update (docs w1) r
                                 [''access_token'' \<mapsto> token creds',
                                  ''expiry'' \<mapsto> expiry_iso creds'] of
                            Inl e \<Rightarrow> (Inl e, w1)
                          | Inr st \<Rightarrow> (Inr creds', w1\<lparr>docs := st\<rparr>)))
         else (Inr creds, w))"

text \<open>
  The \<^verbatim>\<open>else\<close> branch of \<^verbatim>\<open>get_credentials\<close>: the first document of the caller's
  own collection.
\<close>

definition first_own_ref :: "string \<Rightarrow> store \<Rightarrow> docref option" where
  "first_own_ref uid st =
     (if uid = [] then None
      else (case filter (\<lambda>e. fst (fst e) = uid) st of
              [] \<Rightarrow> None
            | e # _ \<Rightarrow> Some (fst e)))"

text \<open>
  Lines 128 to 141 of \<^verbatim>\<open>get_credentials\<close>: the document the call works on, by the
  account id when one is given (an empty one is falsy), else the caller's first.
\<close>

definition credentials_ref :: "string \<Rightarrow> store \<Rightarrow> string option \<Rightarrow> docref option" where
  "credentials_ref uid st account_id =
     (case account_id of
        None \<Rightarrow> first_own_ref uid st
      | Some a \<Rightarrow>
          if a \<noteq> [] then map_option fst (doc_ref_for_account uid st a)
          else first_own_ref uid st)"

text \<open>\<^verbatim>\<open>get_credentials\<close>: \<open>Inr None\<close> is the return value \<^verbatim>\<open>None\<close>.\<close>

definition get_credentials ::
  "provider \<Rightarrow> string \<Rightarrow> nat \<Rightarrow> world \<Rightarrow> string option \<Rightarrow> (exn + credentials option) \<times> world" where
  "get_credentials prov uid now w account_id =
     (case credentials_ref uid (docs w) account_id of
        None \<Rightarrow> (Inr None, w)
      | Some r \<Rightarrow>
          (let data = to_dict_or_empty (docs w) r
           in case data ''refresh_token'' of
                None \<Rightarrow> (Inr None, w)
              | Some rt \<Rightarrow>
                  (case build_and_refresh prov now w r data rt of
                     (Inl e, w') \<Rightarrow> (Inl e, w')
                   | (Inr c, w') \<Rightarrow> (Inr (Some c), w'))))"

text \<open>
  \<^verbatim>\<open>get_service\<close>: the service object is the credentials it is built around;
  \<^verbatim>\<open>raise ValueError("Gmail account not connected")\<close> is the error value.
\<close>

definition get_service ::
  "provider \<Rightarrow> string \<Rightarrow> nat \<Rightarrow> world \<Rightarrow> string \<Rightarrow> (exn + credentials) \<times> world" where
  "get_service prov uid now w account_id =
     (case doc_ref_for_account uid (docs w) account_id of
        None \<Rightarrow> (Inl (ValueError ''Gmail account not connected''), w)
      | Some (r, owner_uid) \<Rightarrow>
          (let data = to_dict_or_empty (docs w) r
           in case data ''refresh_token'' of
                None \<Rightarrow> (Inl (ValueError ''Gmail account not connected''), w)
              | Some rt \<Rightarrow> build_and_refresh prov now w r data rt))"

section \<open>Completing a connection\<close>

text \<open>\<^verbatim>\<open>s.split(c)\<close>: the pieces of \<open>s\<close> between the occurrences of \<open>c\<close>.\<close>

fun py_split :: "char \<Rightarrow> string \<Rightarrow> string list" where
  "py_split c [] = [[]]"
| "py_split c (x # xs) =
     (if x = c then [] # py_split c xs
      else (case py_split c xs of [] \<Rightarrow> [[x]] | p # ps \<Rightarrow> (x # p) # ps))"

text \<open>\<^verbatim>\<open>s.split(c, 1)\<close>: at most one split, at the first occurrence.\<close>

definition py_split1 :: "char \<Rightarrow> string \<Rightarrow> string list" where
  "py_split1 c s =
     (if c \<in> set s
      then [takeWhile (\<lambda>x. x \<noteq> c) s, tl (dropWhile (\<lambda>x. x \<noteq> c) s)]
      else [s])"

text \<open>\<^verbatim>\<open>profile.get("emailAddress")\<close> as a field value.\<close>

definition email_field :: "string option \<Rightarrow> fval" where
  "email_field email = (case email of None \<Rightarrow> Null | Some s \<Rightarrow> Str s)"

text \<open>\<^verbatim>\<open>email_address.split("@")[0] if email_address else ""\<close>\<close>

definition name_field :: "string option \<Rightarrow> fval" where
  "name_field email =
     (case email of
        None \<Rightarrow> Str []
      | Some s \<Rightarrow> if s \<noteq> [] then Str (hd (py_split (CHR ''@'') s)) else Str [])"

text \<open>
  What \<^verbatim>\<open>save_refresh_token\<close> does: it raises, returns
  \<^verbatim>\<open>{"success": False, "error": ...}\<close> or returns \<^verbatim>\<open>{"success": True}\<close>.
\<close>

datatype save_result = SaveRaised exn | SaveFailed string | SaveOk

text \<open>
  \<^verbatim>\<open>save_refresh_token\<close>. \<^verbatim>\<open>uid, account_id = state.split(":")\<close> raises a
  \<^verbatim>\<open>ValueError\<close> unless the split has exactly two pieces; nothing catches an
  exception.
\<close>

definition save_refresh_token ::
  "provider \<Rightarrow> world \<Rightarrow> string \<Rightarrow> string \<Rightarrow> save_result \<times> world" where
  "save_refresh_token prov w cd st_str =
     (case py_split (CHR '':'') st_str of
        [uid, account_id] \<Rightarrow>
          (let w1 = w\<lparr>calls := calls w @ [FetchToken st_str cd]\<rparr>
           in case fetch_token prov st_str cd of
                Inl e \<Rightarrow> (SaveRaised e, w1)
              | Inr creds \<Rightarrow>
                  (let r = (uid, account_id);
                       existing = to_dict_or_empty (docs w1) r;
                       rt = py_or (refresh_token creds) (dict_get existing ''refresh_token'')
                   in if \<not> truthy rt then (SaveFailed ''No refresh_token returned'', w1)
                      else (let w2 = w1\<lparr>calls := calls w1 @ [GetProfile]\<rparr>
                            in case get_profile prov creds of
                                 Inl e \<Rightarrow> (SaveRaised e, w2)
                               | Inr email \<Rightarrow>
                                   (SaveOk,
                                    w2\<lparr>docs := set_merge (docs w2) r
                                       [''refresh_token'' \<mapsto> rt,
                                        ''access_token'' \<mapsto> token creds,
                                        ''expiry'' \<mapsto> expiry_iso creds,
                                        ''emailAddress'' \<mapsto> email_field email,
                                        ''name'' \<mapsto> name_field email]\<rparr>))))
      | [p] \<Rightarrow> (SaveRaised (ValueError ''not enough values to unpack''), w)
      | _ \<Rightarrow> (SaveRaised (ValueError ''too many values to unpack''), w))"

text \<open>
  The errors \<^verbatim>\<open>handle_callback\<close> returns as the second component of its result:
  \<^verbatim>\<open>"Invalid state format: expected 'uid:account_id'"\<close>,
  \<^verbatim>\<open>"No refresh_token returned"\<close>, and \<^verbatim>\<open>"Error in handle_callback: ..."\<close> for an
  exception caught by its \<^verbatim>\<open>except Exception\<close>.
\<close>

datatype callback_error = InvalidStateFormat | NoRefreshTokenReturned | ErrorInHandleCallback exn

text \<open>
  \<^verbatim>\<open>handle_callback\<close>: \<open>Inr account_id\<close> is the result \<^verbatim>\<open>(account_id, None)\<close>,
  \<open>Inl e\<close> the result \<^verbatim>\<open>(None, message)\<close>.
\<close>

definition handle_callback ::
  "provider \<Rightarrow> world \<Rightarrow> string \<Rightarrow> string \<Rightarrow> (callback_error + string) \<times> world" where
  "handle_callback prov w st_str cd =
     (if CHR '':'' \<notin> set st_str then (Inl InvalidStateFormat, w)
      else (case py_split1 (CHR '':'') st_str of
              [uid, account_id] \<Rightarrow>
                (let w1 = w\<lparr>calls := calls w @ [FetchToken st_str cd]\<rparr>
                 in case fetch_token prov st_str cd of
                      Inl e \<Rightarrow> (Inl (ErrorInHandleCallback e), w1)
                    | Inr creds \<Rightarrow>
                        if \<not> truthy (refresh_token creds) then (Inl NoRefreshTokenReturned, w1)
                        else (let r = (uid, account_id);
                                  existing = to_dict_or_empty (docs w1) r;
                                  rt = py_or (refresh_token creds)
                                         (dict_get existing ''refresh_token'')
                              in if \<not> truthy rt then (Inl NoRefreshTokenReturned, w1)
                                 else (let w2 = w1\<lparr>calls := calls w1 @ [GetProfile]\<rparr>
                                       in case get_profile prov creds of
                                            Inl e \<Rightarrow> (Inl (ErrorInHandleCallback e), w2)
                                          | Inr email \<Rightarrow>
                                              (Inr account_id,
                                               w2\<lparr>docs := set_merge (docs w2) r
                                                  [''refresh_token'' \<mapsto> rt,
                                                   ''access_token'' \<mapsto> token creds,
                                                   ''expiry'' \<mapsto> expiry_str creds,
                                                   ''emailAddress'' \<mapsto> email_field email,
                                                   ''name'' \<mapsto> name_field email]\<rparr>))))
            | _ \<Rightarrow> (Inl (ErrorInHandleCallback (ValueError ''unpack'')), w)))"

section \<open>Disconnecting\<close>

text \<open>
  The results of \<^verbatim>\<open>disconnect_account\<close>: \<^verbatim>\<open>{"success": True}\<close>, and
  \<^verbatim>\<open>{"success": False, "error": ...}\<close> with the error
  \<^verbatim>\<open>"Gmail account not found"\<close> or
  \<^verbatim>\<open>"You do not have permission to disconnect this account"\<close>. The store operations
  of the model raise nothing, so the \<^verbatim>\<open>except\<close> branch has no case here.
\<close>

datatype disconnect_result = Disconnected | AccountNotFound | PermissionDenied

definition disconnect_account ::
  "string \<Rightarrow> world \<Rightarrow> string \<Rightarrow> bool \<Rightarrow> disconnect_result \<times> world" where
  "disconnect_account uid w account_id admin_mode =
     (case doc_ref_for_account uid (docs w) account_id of
        None \<Rightarrow> (AccountNotFound, w)
      | Some (r, owner_uid) \<Rightarrow>
          if \<not> admin_mode \<and> owner_uid \<noteq> uid then (PermissionDenied, w)
          else (Disconnected, w\<lparr>docs := doc_delete (docs w) r\<rparr>))"

section \<open>Concrete inputs\<close>

text \<open>
  A provider whose exchange returns the token set \<open>a1\<close>, \<open>r1\<close>, expiring at 3600, whose
  profile has the address \<open>x@y.com\<close>, and whose refresh returns \<open>a2\<close>, expiring at 7200.
\<close>

definition prov0 :: provider where
  "prov0 = \<lparr>authorization_url = (\<lambda>s. ''https://accounts.example/auth?state='' @ s),
            fetch_token = (\<lambda>s c. Inr \<lparr>token = Str ''a1'', refresh_token = Str ''r1'', expiry = Some 3600\<rparr>),
            get_profile = (\<lambda>c. Inr (Some ''x@y.com'')),
            refresh_grant = (\<lambda>rt. Inr (''a2'', Some 7200)),
            refresh_threshold = 0\<rparr>"

text \<open>A store with one placeholder record.\<close>

definition w_pending :: world where
  "w_pending = \<lparr>docs = [((''u1'', ''a1''), [''createdAt'' \<mapsto> ServerTime 5])], calls = []\<rparr>"

text \<open>A store with one connected record for each of two owners.\<close>

definition w_two :: world where
  "w_two = \<lparr>docs = [((''u1'', ''a1''), [''refresh_token'' \<mapsto> Str ''r1'']),
                   ((''u2'', ''a2''), [''refresh_token'' \<mapsto> Str ''r2''])], calls = []\<rparr>"

text \<open>The empty store.\<close>

definition w_empty :: world where
  "w_empty = \<lparr>docs = [], calls = []\<rparr>"

text \<open>
  A connected record whose stored access token expired at 3600, and one with an access
  token and no stored expiry.
\<close>

definition w_stale :: world where
  "w_stale = \<lparr>docs = [((''u1'', ''a1''),
                        [''createdAt'' \<mapsto> ServerTime 5, ''refresh_token'' \<mapsto> Str ''r1'',
                         ''access_token'' \<mapsto> Str ''a1'', ''expiry'' \<mapsto> IsoTime 3600]),
                      ((''u1'', ''a2''),
                        [''createdAt'' \<mapsto> ServerTime 6, ''refresh_token'' \<mapsto> Str ''r2'',
                         ''access_token'' \<mapsto> Str ''b1''])],
              calls = []\<rparr>"

text \<open>A provider whose exchange returns no refresh token, as on a repeated consent.\<close>

definition prov_reconsent :: provider where
  "prov_reconsent = prov0\<lparr>fetch_token :=
     (\<lambda>s c. Inr \<lparr>token = Str ''a9'', refresh_token = Null, expiry = Some 9000\<rparr>)\<rparr>"

text \<open>
  A store in which another owner's record comes first in the scan, followed by two
  records of the owner \<open>u1\<close>.
\<close>

definition w_shared :: world where
  "w_shared = \<lparr>docs = [((''u0'', ''a0''), [''createdAt'' \<mapsto> ServerTime 1]),
                      ((''u1'', ''a1''), [''createdAt'' \<mapsto> ServerTime 5]),
                      ((''u1'', ''a2''), [''createdAt'' \<mapsto> ServerTime 6])],
               calls = []\<rparr>"

section \<open>Facts about the store\<close>

lemma map_of_set_merge:
  "map_of (set_merge st r f) =
     (map_of st)(r \<mapsto> (case map_of st r of None \<Rightarrow> f | Some d \<Rightarrow> d ++ f))"
  by (induction st r f rule: set_merge.induct) (auto simp: fun_eq_iff)

lemma map_of_doc_delete: "map_of (doc_delete st r) = (map_of st)(r := None)"
  unfolding doc_delete_def by (induction st) (auto simp: fun_eq_iff)

lemma scan_for_first:
  "\<forall>e \<in> set pre. snd (fst e) \<noteq> account_id \<Longrightarrow>
   scan_for account_id (pre @ ((owner, account_id), d) # post) = Some (owner, account_id)"
  by (induction pre) auto

lemma scan_for_Some:
  "scan_for account_id st = Some r \<Longrightarrow> snd r = account_id \<and> map_of st r \<noteq> None"
  by (induction st) (auto split: if_splits)

lemma doc_ref_for_account_Some:
  "doc_ref_for_account uid st account_id = Some (r, owner) \<Longrightarrow>
   r = (owner, account_id) \<and> snapshot st r \<noteq> None"
  unfolding doc_ref_for_account_def snapshot_def
  by (auto split: if_splits option.splits dest!: scan_for_Some)

lemma snapshot_set_merge:
  "snapshot (set_merge st r f) r' =
     (if r' = r then Some (case snapshot st r of None \<Rightarrow> f | Some d \<Rightarrow> d ++ f)
      else snapshot st r')"
  by (simp add: snapshot_def map_of_set_merge)

lemma get_existing_None_iff:
  "get_existing_account_id uid st = None \<longleftrightarrow> (\<forall>e \<in> set st. fst (fst e) \<noteq> uid)"
proof -
  have "get_existing_account_id uid st = None \<longleftrightarrow> filter (\<lambda>e. fst (fst e) = uid) st = []"
    by (simp add: get_existing_account_id_def split: list.splits)
  then show ?thesis by (simp add: filter_empty_conv)
qed

lemma no_own_docs_snapshot:
  "\<forall>e \<in> set st. fst (fst e) \<noteq> uid \<Longrightarrow> snapshot st (uid, a) = None"
  unfolding snapshot_def by (induction st) auto

lemma get_existing_Some_snapshot:
  assumes "get_existing_account_id uid st = Some a"
  shows "snapshot st (uid, a) \<noteq> None"
proof -
  from assms obtain e es
    where f: "filter (\<lambda>e. fst (fst e) = uid) st = e # es" and a: "a = snd (fst e)"
    by (auto simp: get_existing_account_id_def split: list.splits)
  from f have "e \<in> set (filter (\<lambda>e. fst (fst e) = uid) st)" by simp
  then have "e \<in> set st" "fst (fst e) = uid" by auto
  then have "(uid, a) \<in> fst ` set st" using a by (metis image_eqI prod.collapse)
  then show ?thesis unfolding snapshot_def by (simp add: map_of_eq_None_iff)
qed

lemma build_and_refresh_token_present:
  assumes "dict_get data ''access_token'' \<noteq> Null"
  shows "build_and_refresh prov now w r data rt
           = (Inr \<lparr>token = dict_get data ''access_token'', refresh_token = rt, expiry = None\<rparr>, w)"
  using assms by (simp add: build_and_refresh_def cred_valid_def cred_expired_def)

lemma build_and_refresh_token_absent:
  assumes "dict_get data ''access_token'' = Null"
  shows "calls (snd (build_and_refresh prov now w r data rt)) = calls w @ [Refresh rt]"
  using assms
  by (simp add: build_and_refresh_def cred_valid_def cred_expired_def Let_def
           split: sum.splits prod.splits)

lemma refresh_iff_no_access_token:
  "calls (snd (build_and_refresh prov now w r data rt)) =
     (if dict_get data ''access_token'' = Null then calls w @ [Refresh rt] else calls w)"
  by (simp add: build_and_refresh_token_present build_and_refresh_token_absent)

lemma refresh_persists_by_merge:
  assumes rec: "snapshot (docs w) r = Some d"
      and absent: "dict_get data ''access_token'' = Null"
      and grant: "refresh_grant prov rt = Inr (tok, exp)"
  shows "build_and_refresh prov now w r data rt
           = (Inr \<lparr>token = Str tok, refresh_token = rt, expiry = exp\<rparr>,
              \<lparr>docs = set_merge (docs w) r
                        [''access_token'' \<mapsto> Str tok,
                         ''expiry'' \<mapsto> (case exp of None \<Rightarrow> Null | Some e \<Rightarrow> IsoTime e)],
               calls = calls w @ [Refresh rt]\<rparr>)"
  using assms
  by (simp add: build_and_refresh_def cred_valid_def cred_expired_def doc_update_def
        expiry_iso_def)

lemma handle_callback_needs_exchange_refresh_token:
  assumes "CHR '':'' \<in> set s" "fetch_token prov s c = Inr creds" "\<not> truthy (refresh_token creds)"
  shows "handle_callback prov w s c
           = (Inl NoRefreshTokenReturned, w\<lparr>calls := calls w @ [FetchToken s c]\<rparr>)"
  using assms by (simp add: handle_callback_def py_split1_def)

lemma merge_keeps_unwritten_field:
  "f k = None \<Longrightarrow>
   to_dict_or_empty (set_merge st r f) r' k = to_dict_or_empty st r' k"
  by (simp add: to_dict_or_empty_def snapshot_set_merge map_add_def split: option.splits)

lemma py_split_not_Nil: "py_split c s \<noteq> []"
  by (induction s) (auto split: list.splits)

lemma py_split_no_sep: "c \<notin> set s \<Longrightarrow> py_split c s = [s]"
  by (induction s) auto

lemma py_split_single: "py_split c s = [b] \<Longrightarrow> c \<notin> set s \<and> b = s"
proof (induction s arbitrary: b)
  case Nil
  then show ?case by simp
next
  case (Cons x xs)
  show ?case
  proof (cases "x = c")
    case True
    with Cons.prems show ?thesis by (simp add: py_split_not_Nil)
  next
    case False
    with Cons.prems obtain p where "py_split c xs = [p]" "b = x # p"
      by (auto simp: py_split_not_Nil split: list.splits)
    with Cons.IH [of p] False show ?thesis by simp
  qed
qed


lemma py_split_two:
  "py_split c s = [a, b] \<Longrightarrow> c \<in> set s \<and> py_split1 c s = [a, b]"
proof (induction s arbitrary: a)
  case Nil
  then show ?case by simp
next
  case (Cons x xs)
  show ?case
  proof (cases "x = c")
    case True
    with Cons.prems have "a = []" "py_split c xs = [b]" by auto
    then show ?thesis using True py_split_single [of c xs b] by (simp add: py_split1_def)
  next
    case False
    with Cons.prems obtain p where a: "a = x # p" and sp: "py_split c xs = [p, b]"
      by (auto simp: py_split_not_Nil split: list.splits)
    from Cons.IH [OF sp] have "c \<in> set xs" "py_split1 c xs = [p, b]" by auto
    then show ?thesis using False a by (simp add: py_split1_def)
  qed
qed

lemma save_refresh_token_no_sep:
  assumes "CHR '':'' \<notin> set s"
  shows "save_refresh_token prov w c s
           = (SaveRaised (ValueError ''not enough values to unpack''), w)"
  using assms by (simp add: save_refresh_token_def py_split_no_sep)


lemma build_and_refresh_keeps_other_fields:
  assumes "k \<noteq> ''access_token''" "k \<noteq> ''expiry''"
  shows "to_dict_or_empty (docs (snd (build_and_refresh prov now w r data rt))) r' k
           = to_dict_or_empty (docs w) r' k"
  using assms
  by (simp add: build_and_refresh_def Let_def doc_update_def merge_keeps_unwritten_field
           split: sum.splits prod.splits option.splits)

lemma handle_callback_keeps_other_fields:
  assumes "k \<noteq> ''refresh_token''" "k \<noteq> ''access_token''" "k \<noteq> ''expiry''"
          "k \<noteq> ''emailAddress''" "k \<noteq> ''name''"
  shows "to_dict_or_empty (docs (snd (handle_callback prov w s c))) r k
           = to_dict_or_empty (docs w) r k"
  using assms
  by (simp add: handle_callback_def Let_def merge_keeps_unwritten_field
        split: list.splits sum.splits)

lemma save_refresh_token_keeps_other_fields:
  assumes "k \<noteq> ''refresh_token''" "k \<noteq> ''access_token''" "k \<noteq> ''expiry''"
          "k \<noteq> ''emailAddress''" "k \<noteq> ''name''"
  shows "to_dict_or_empty (docs (snd (save_refresh_token prov w c s))) r k
           = to_dict_or_empty (docs w) r k"
  using assms
  by (simp add: save_refresh_token_def Let_def merge_keeps_unwritten_field
        split: list.splits sum.splits)

lemma map_fst_set_merge: "map fst (set_merge st r f) = map fst (set_merge st r g)"
  by (induction st r f rule: set_merge.induct) auto

lemma merge_agree_on_field:
  "f k = g k \<Longrightarrow>
   to_dict_or_empty (set_merge st r f) r' k = to_dict_or_empty (set_merge st r g) r' k"
  by (simp add: to_dict_or_empty_def snapshot_set_merge map_add_def split: option.splits)

lemma completions_success:
  assumes sp: "py_split (CHR '':'') s = [uid, aid]"
      and ex: "fetch_token prov s c = Inr creds"
      and rt: "truthy (refresh_token creds)"
      and pr: "get_profile prov creds = Inr email"
  shows "save_refresh_token prov w c s
           = (SaveOk,
              \<lparr>docs = set_merge (docs w) (uid, aid)
                        [''refresh_token'' \<mapsto> refresh_token creds,
                         ''access_token'' \<mapsto> token creds,
                         ''expiry'' \<mapsto> expiry_iso creds,
                         ''emailAddress'' \<mapsto> email_field email,
                         ''name'' \<mapsto> name_field email],
               calls = calls w @ [FetchToken s c, GetProfile]\<rparr>)"
    and "handle_callback prov w s c
           = (Inr aid,
              \<lparr>docs = set_merge (docs w) (uid, aid)
                        [''refresh_token'' \<mapsto> refresh_token creds,
                         ''access_token'' \<mapsto> token creds,
                         ''expiry'' \<mapsto> expiry_str creds,
                         ''emailAddress'' \<mapsto> email_field email,
                         ''name'' \<mapsto> name_field email],
               calls = calls w @ [FetchToken s c, GetProfile]\<rparr>)"
proof -
  from py_split_two [OF sp] have colon: "CHR '':'' \<in> set s"
    and sp1: "py_split1 (CHR '':'') s = [uid, aid]" by auto
  show "save_refresh_token prov w c s
           = (SaveOk,
              \<lparr>docs = set_merge (docs w) (uid, aid)
                        [''refresh_token'' \<mapsto> refresh_token creds,
                         ''access_token'' \<mapsto> token creds,
                         ''expiry'' \<mapsto> expiry_iso creds,
                         ''emailAddress'' \<mapsto> email_field email,
                         ''name'' \<mapsto> name_field email],
               calls = calls w @ [FetchToken s c, GetProfile]\<rparr>)"
    using sp ex rt pr by (simp add: save_refresh_token_def py_or_def Let_def)
  show "handle_callback prov w s c
           = (Inr aid,
              \<lparr>docs = set_merge (docs w) (uid, aid)
                        [''refresh_token'' \<mapsto> refresh_token creds,
                         ''access_token'' \<mapsto> token creds,
                         ''expiry'' \<mapsto> expiry_str creds,
                         ''emailAddress'' \<mapsto> email_field email,
                         ''name'' \<mapsto> name_field email],
               calls = calls w @ [FetchToken s c, GetProfile]\<rparr>)"
    using colon sp1 ex rt pr by (simp add: handle_callback_def py_or_def Let_def)
qed

lemma completions_exchange_raises:
  assumes sp: "py_split (CHR '':'') s = [uid, aid]"
      and ex: "fetch_token prov s c = Inl e"
  shows "save_refresh_token prov w c s
           = (SaveRaised e, w\<lparr>calls := calls w @ [FetchToken s c]\<rparr>)"
    and "handle_callback prov w s c
           = (Inl (ErrorInHandleCallback e), w\<lparr>calls := calls w @ [FetchToken s c]\<rparr>)"
proof -
  from py_split_two [OF sp] have colon: "CHR '':'' \<in> set s"
    and sp1: "py_split1 (CHR '':'') s = [uid, aid]" by auto
  show "save_refresh_token prov w c s
           = (SaveRaised e, w\<lparr>calls := calls w @ [FetchToken s c]\<rparr>)"
    using sp ex by (simp add: save_refresh_token_def Let_def)
  show "handle_callback prov w s c
           = (Inl (ErrorInHandleCallback e), w\<lparr>calls := calls w @ [FetchToken s c]\<rparr>)"
    using colon sp1 ex by (simp add: handle_callback_def Let_def)
qed

lemma completions_no_refresh_token:
  assumes sp: "py_split (CHR '':'') s = [uid, aid]"
      and ex: "fetch_token prov s c = Inr creds"
      and rt: "\<not> truthy (refresh_token creds)"
      and stored: "\<not> truthy (dict_get (to_dict_or_empty (docs w) (uid, aid)) ''refresh_token'')"
  shows "save_refresh_token prov w c s
           = (SaveFailed ''No refresh_token returned'',
              w\<lparr>calls := calls w @ [FetchToken s c]\<rparr>)"
    and "handle_callback prov w s c
           = (Inl NoRefreshTokenReturned, w\<lparr>calls := calls w @ [FetchToken s c]\<rparr>)"
proof -
  from py_split_two [OF sp] have colon: "CHR '':'' \<in> set s"
    and sp1: "py_split1 (CHR '':'') s = [uid, aid]" by auto
  show "save_refresh_token prov w c s
           = (SaveFailed ''No refresh_token returned'',
              w\<lparr>calls := calls w @ [FetchToken s c]\<rparr>)"
    using sp ex rt stored by (simp add: save_refresh_token_def Let_def py_or_def)
  show "handle_callback prov w s c
           = (Inl NoRefreshTokenReturned, w\<lparr>calls := calls w @ [FetchToken s c]\<rparr>)"
    using colon sp1 ex rt by (simp add: handle_callback_def Let_def)
qed

lemma completions_profile_raises:
  assumes sp: "py_split (CHR '':'') s = [uid, aid]"
      and ex: "fetch_token prov s c = Inr creds"
      and rt: "truthy (refresh_token creds)"
      and pr: "get_profile prov creds = Inl e"
  shows "save_refresh_token prov w c s
           = (SaveRaised e, w\<lparr>calls := calls w @ [FetchToken s c, GetProfile]\<rparr>)"
    and "handle_callback prov w s c
           = (Inl (ErrorInHandleCallback e),
              w\<lparr>calls := calls w @ [FetchToken s c, GetProfile]\<rparr>)"
proof -
  from py_split_two [OF sp] have colon: "CHR '':'' \<in> set s"
    and sp1: "py_split1 (CHR '':'') s = [uid, aid]" by auto
  show "save_refresh_token prov w c s
           = (SaveRaised e, w\<lparr>calls := calls w @ [FetchToken s c, GetProfile]\<rparr>)"
    using sp ex rt pr by (simp add: save_refresh_token_def Let_def py_or_def)
  show "handle_callback prov w s c
           = (Inl (ErrorInHandleCallback e),
              w\<lparr>calls := calls w @ [FetchToken s c, GetProfile]\<rparr>)"
    using colon sp1 ex rt pr by (simp add: handle_callback_def Let_def py_or_def)
qed

lemma get_existing_first:
  assumes "\<forall>e \<in> set pre. fst (fst e) \<noteq> uid"
  shows "get_existing_account_id uid (pre @ ((uid, a), d) # post) = Some a"
proof -
  from assms have "filter (\<lambda>e. fst (fst e) = uid) pre = []"
    by (simp add: filter_empty_conv)
  then show ?thesis by (simp add: get_existing_account_id_def)
qed








section \<open>Refreshing and the stored expiry\<close>

text \<open>
  Claim C1, evaluated. At time 5000 the record \<open>(u1, a1)\<close> holds an access token whose
  stored expiry, 3600, has passed, and the record \<open>(u1, a2)\<close> holds an access token
  and no stored expiry. \<^verbatim>\<open>get_service\<close> and \<^verbatim>\<open>get_credentials\<close> return the stored
  access token for both and leave the world as it was: the provider is not asked for a
  refresh. The stored \<^verbatim>\<open>expiry\<close> is not passed to the credentials object, whose own
  expiry is therefore \<^verbatim>\<open>None\<close>, and the library reports such an object as not
  expired. In general a refresh is asked for exactly when the stored access token is
  absent or \<^verbatim>\<open>None\<close> (\<open>refresh_iff_no_access_token\<close>), and a successful one is
  written back by merge (\<open>refresh_persists_by_merge\<close>,
  \<open>build_and_refresh_keeps_other_fields\<close>).
\<close>

theorem stale_record_served_without_refresh:
  "to_dict_or_empty (docs w_stale) (''u1'', ''a1'') ''expiry'' = Some (IsoTime 3600)
   \<and> get_service prov0 ''u1'' 5000 w_stale ''a1''
       = (Inr \<lparr>token = Str ''a1'', refresh_token = Str ''r1'', expiry = None\<rparr>, w_stale)
   \<and> get_credentials prov0 ''u1'' 5000 w_stale (Some ''a1'')
       = (Inr (Some \<lparr>token = Str ''a1'', refresh_token = Str ''r1'', expiry = None\<rparr>), w_stale)
   \<and> to_dict_or_empty (docs w_stale) (''u1'', ''a2'') ''expiry'' = None
   \<and> get_service prov0 ''u1'' 5000 w_stale ''a2''
       = (Inr \<lparr>token = Str ''b1'', refresh_token = Str ''r2'', expiry = None\<rparr>, w_stale)"
  by (simp add: get_service_def get_credentials_def credentials_ref_def doc_ref_for_account_def
        snapshot_def to_dict_or_empty_def w_stale_def build_and_refresh_def cred_valid_def
        cred_expired_def dict_get_def)

section \<open>The stored refresh token at completion\<close>

text \<open>
  Claim C2, evaluated. The record \<open>(u1, a1)\<close> holds the refresh token \<open>r1\<close> and the
  exchange returns none. \<^verbatim>\<open>handle_callback\<close> returns
  \<^verbatim>\<open>"No refresh_token returned"\<close> after the exchange, before it reads the record;
  \<^verbatim>\<open>save_refresh_token\<close> succeeds on the same input and keeps \<open>r1\<close>.
\<close>

theorem callback_ignores_stored_refresh_token:
  "to_dict_or_empty (docs w_stale) (''u1'', ''a1'') ''refresh_token'' = Some (Str ''r1'')
   \<and> fetch_token prov_reconsent ''u1:a1'' ''c''
       = Inr \<lparr>token = Str ''a9'', refresh_token = Null, expiry = Some 9000\<rparr>
   \<and> handle_callback prov_reconsent w_stale ''u1:a1'' ''c''
       = (Inl NoRefreshTokenReturned, w_stale\<lparr>calls := [FetchToken ''u1:a1'' ''c'']\<rparr>)
   \<and> fst (save_refresh_token prov_reconsent w_stale ''c'' ''u1:a1'') = SaveOk
   \<and> to_dict_or_empty (docs (snd (save_refresh_token prov_reconsent w_stale ''c'' ''u1:a1'')))
        (''u1'', ''a1'') ''refresh_token'' = Some (Str ''r1'')"
  by (simp add: handle_callback_def save_refresh_token_def py_split1_def prov_reconsent_def
        prov0_def w_stale_def to_dict_or_empty_def snapshot_def py_or_def dict_get_def)

section \<open>Disconnecting an account\<close>

text \<open>
  Claim C3. Let \<^verbatim>\<open>_doc_ref_for_account\<close> resolve \<open>account_id\<close> for the caller \<open>uid\<close>
  to a record of \<open>owner\<close>. A caller who is neither that owner nor in admin mode gets the
  permission error and the store is as it was. The owner, and any caller in admin mode,
  gets success, and the record is gone: the direct lookup of \<open>(owner, account_id)\<close>
  afterwards finds no document.
\<close>

theorem disconnect_owner_or_admin:
  assumes res: "doc_ref_for_account uid (docs w) account_id = Some (r, owner)"
  shows "r = (owner, account_id)
       \<and> (\<not> admin_mode \<and> owner \<noteq> uid \<longrightarrow>
            disconnect_account uid w account_id admin_mode = (PermissionDenied, w))
       \<and> (admin_mode \<or> owner = uid \<longrightarrow>
            fst (disconnect_account uid w account_id admin_mode) = Disconnected
            \<and> snapshot (docs (snd (disconnect_account uid w account_id admin_mode)))
                 (owner, account_id) = None)"
  using res doc_ref_for_account_Some [OF res]
  by (auto simp: disconnect_account_def snapshot_def map_of_doc_delete)

theorem disconnect_owner_or_admin_witness:
  "disconnect_account ''u1'' w_two ''a2'' False = (PermissionDenied, w_two)
   \<and> fst (disconnect_account ''u1'' w_two ''a2'' True) = Disconnected
   \<and> snapshot (docs (snd (disconnect_account ''u1'' w_two ''a2'' True))) (''u2'', ''a2'') = None
   \<and> fst (disconnect_account ''u2'' w_two ''a2'' False) = Disconnected
   \<and> snapshot (docs (snd (disconnect_account ''u2'' w_two ''a2'' False))) (''u2'', ''a2'') = None"
proof -
  have r1: "doc_ref_for_account ''u1'' (docs w_two) ''a2'' = Some ((''u2'', ''a2''), ''u2'')"
    by (simp add: w_two_def doc_ref_for_account_def snapshot_def)
  have r2: "doc_ref_for_account ''u2'' (docs w_two) ''a2'' = Some ((''u2'', ''a2''), ''u2'')"
    by (simp add: w_two_def doc_ref_for_account_def snapshot_def)
  from disconnect_owner_or_admin [OF r1, of False] disconnect_owner_or_admin [OF r1, of True]
       disconnect_owner_or_admin [OF r2, of False]
  show ?thesis by simp
qed

section \<open>Resolution with fallback\<close>

text \<open>
  Claim C4. \<^verbatim>\<open>_doc_ref_for_account\<close> tries the caller's own path first: a record of
  the caller \<open>uid\<close> with the id \<open>account_id\<close> is the result, whatever the scan would
  find. When the caller has no such record (the direct path misses), the scan over all
  owners decides: the result is the first record of the scan whose id is \<open>account_id\<close>,
  together with that record's own owner. Records with the same id later in the scan,
  under whatever owner, do not change the result and raise no error.
\<close>

theorem resolve_fallback_first_seen:
  "(uid \<noteq> [] \<and> snapshot st (uid, account_id) \<noteq> None \<longrightarrow>
      doc_ref_for_account uid st account_id = Some ((uid, account_id), uid))
   \<and> (snapshot st (uid, account_id) = None
        \<and> (\<forall>e \<in> set pre. snd (fst e) \<noteq> account_id)
        \<and> st = pre @ ((owner, account_id), d) # post \<longrightarrow>
      doc_ref_for_account uid st account_id = Some ((owner, account_id), owner))"
proof (intro conjI impI)
  assume "uid \<noteq> [] \<and> snapshot st (uid, account_id) \<noteq> None"
  then show "doc_ref_for_account uid st account_id = Some ((uid, account_id), uid)"
    by (simp add: doc_ref_for_account_def)
next
  assume h: "snapshot st (uid, account_id) = None
        \<and> (\<forall>e \<in> set pre. snd (fst e) \<noteq> account_id)
        \<and> st = pre @ ((owner, account_id), d) # post"
  have miss: "snapshot st (uid, account_id) = None"
    by (rule conjunct1 [OF h])
  have first: "\<forall>e \<in> set pre. snd (fst e) \<noteq> account_id"
    by (rule conjunct1 [OF conjunct2 [OF h]])
  have st: "st = pre @ ((owner, account_id), d) # post"
    by (rule conjunct2 [OF conjunct2 [OF h]])
  have "doc_ref_for_account uid st account_id
          = (case scan_for account_id st of None \<Rightarrow> None | Some r \<Rightarrow> Some (r, fst r))"
    using miss by (simp add: doc_ref_for_account_def)
  also have "scan_for account_id st = Some (owner, account_id)"
    unfolding st by (rule scan_for_first [OF first])
  finally show "doc_ref_for_account uid st account_id = Some ((owner, account_id), owner)"
    by simp
qed

theorem resolve_fallback_first_seen_witness:
  "doc_ref_for_account ''u3''
     [((''u0'', ''a0''), Map.empty),
      ((''u2'', ''a1''), [''createdAt'' \<mapsto> ServerTime 5]),
      ((''u3'', ''a1''), Map.empty)] ''a1''
   = Some ((''u3'', ''a1''), ''u3'')
   \<and> doc_ref_for_account ''u1''
     [((''u0'', ''a0''), Map.empty),
      ((''u2'', ''a1''), [''createdAt'' \<mapsto> ServerTime 5]),
      ((''u3'', ''a1''), Map.empty)] ''a1''
   = Some ((''u2'', ''a1''), ''u2'')"
proof -
  let ?st = "[((''u0'', ''a0''), Map.empty),
              ((''u2'', ''a1''), [''createdAt'' \<mapsto> ServerTime 5]),
              ((''u3'', ''a1''), Map.empty)] :: store"
  have hit: "''u3'' \<noteq> [] \<and> snapshot ?st (''u3'', ''a1'') \<noteq> None"
    by (simp add: snapshot_def)
  have miss: "snapshot ?st (''u1'', ''a1'') = None
        \<and> (\<forall>e \<in> set [((''u0'', ''a0''), Map.empty :: doc)]. snd (fst e) \<noteq> ''a1'')
        \<and> ?st = [((''u0'', ''a0''), Map.empty)]
                  @ ((''u2'', ''a1''), [''createdAt'' \<mapsto> ServerTime 5])
                  # [((''u3'', ''a1''), Map.empty)]"
    by (simp add: snapshot_def)
  note a = mp [OF conjunct1 [OF resolve_fallback_first_seen
                 [where uid = "''u3''" and st = ?st and account_id = "''a1''"]] hit]
  note b = mp [OF conjunct2 [OF resolve_fallback_first_seen
                 [where uid = "''u1''" and st = ?st and account_id = "''a1''"
                    and pre = "[((''u0'', ''a0''), Map.empty)]" and owner = "''u2''"
                    and d = "[''createdAt'' \<mapsto> ServerTime 5]"
                    and post = "[((''u3'', ''a1''), Map.empty)]"]] miss]
  from a b show ?thesis by (rule conjI)
qed

section \<open>Pending records\<close>

text \<open>
  Claim C5. A stored record without a \<^verbatim>\<open>refresh_token\<close> is not usable:
  \<^verbatim>\<open>get_service\<close> on it raises \<^verbatim>\<open>ValueError("Gmail account not connected")\<close> and
  \<^verbatim>\<open>get_credentials\<close> on it returns \<^verbatim>\<open>None\<close>; neither returns a credential, calls
  the provider or writes to the store.
\<close>

theorem pending_record_not_connected:
  assumes rec: "snapshot (docs w) r = Some d"
      and pending: "d ''refresh_token'' = None"
  shows "(doc_ref_for_account uid (docs w) account_id = Some (r, owner) \<longrightarrow>
            get_service prov uid now w account_id
              = (Inl (ValueError ''Gmail account not connected''), w))
       \<and> (credentials_ref uid (docs w) acc = Some r \<longrightarrow>
            get_credentials prov uid now w acc = (Inr None, w))"
  using rec pending
  by (simp add: get_service_def get_credentials_def to_dict_or_empty_def)

theorem pending_record_not_connected_witness:
  "get_service prov0 ''u1'' 10 w_pending ''a1''
     = (Inl (ValueError ''Gmail account not connected''), w_pending)
   \<and> get_credentials prov0 ''u1'' 10 w_pending None = (Inr None, w_pending)"
proof -
  have rec: "snapshot (docs w_pending) (''u1'', ''a1'') = Some [''createdAt'' \<mapsto> ServerTime 5]"
    by (simp add: w_pending_def snapshot_def)
  have pending: "[''createdAt'' \<mapsto> ServerTime 5] ''refresh_token'' = None"
    by simp
  have r1: "doc_ref_for_account ''u1'' (docs w_pending) ''a1'' = Some ((''u1'', ''a1''), ''u1'')"
    by (simp add: w_pending_def doc_ref_for_account_def snapshot_def)
  have r2: "credentials_ref ''u1'' (docs w_pending) None = Some (''u1'', ''a1'')"
    by (simp add: w_pending_def credentials_ref_def first_own_ref_def)
  from pending_record_not_connected [OF rec pending, of "''u1''" "''a1''" "''u1''" prov0 10 None] r1 r2
  show ?thesis by simp
qed

section \<open>The creation time\<close>

text \<open>
  Claim C6, evaluated. The record \<open>(u1, a1)\<close> was created at time 5.
  \<^verbatim>\<open>get_auth_url\<close> with the account id \<open>a1\<close> given, at time 9, writes
  \<^verbatim>\<open>createdAt\<close> again: the record's creation time is 9 afterwards. The completion
  functions and the refresh do keep the field (\<open>handle_callback_keeps_other_fields\<close>,
  \<open>save_refresh_token_keeps_other_fields\<close>, \<open>build_and_refresh_keeps_other_fields\<close>).
\<close>

theorem explicit_account_id_resets_created_at:
  "to_dict_or_empty (docs w_stale) (''u1'', ''a1'') ''createdAt'' = Some (ServerTime 5)
   \<and> to_dict_or_empty (docs (snd (get_auth_url prov0 ''u1'' 9 ''id-1'' w_stale (Some ''a1''))))
        (''u1'', ''a1'') ''createdAt'' = Some (ServerTime 9)"
  by (simp add: get_auth_url_def ensure_account_doc_def w_stale_def to_dict_or_empty_def
        snapshot_def)

section \<open>Malformed states\<close>




section \<open>Beginning a connection\<close>

text \<open>
  Claim C8. \<^verbatim>\<open>get_auth_url\<close> without an account id. For an owner with no record in
  the store, the id drawn (\<open>new_id\<close>) is returned with the authorization URL of the state
  \<open>uid:new_id\<close>, and the store gets the placeholder \<open>(uid, new_id)\<close> whose only field is
  \<^verbatim>\<open>createdAt\<close> (so no \<^verbatim>\<open>refresh_token\<close>); no other record changes. For an
  owner with at least one record in the store (document ids being non-empty), the id of
  one of the owner's records is returned with the URL of the state made of the owner and
  that id, and nothing is written; the record reused is the owner's first one in the
  order of the store, wherever the records of other owners stand.
\<close>

theorem begin_connection_placeholder_or_reuse:
  "((\<forall>e \<in> set (docs w). fst (fst e) \<noteq> uid) \<longrightarrow>
      fst (get_auth_url prov uid now new_id w None)
        = \<lparr>url = authorization_url prov (uid @ '':'' @ new_id), accountId = new_id\<rparr>
      \<and> snapshot (docs (snd (get_auth_url prov uid now new_id w None))) (uid, new_id)
          = Some [''createdAt'' \<mapsto> ServerTime now]
      \<and> (\<forall>r. r \<noteq> (uid, new_id) \<longrightarrow>
            snapshot (docs (snd (get_auth_url prov uid now new_id w None))) r
              = snapshot (docs w) r)
      \<and> calls (snd (get_auth_url prov uid now new_id w None)) = calls w)
   \<and> ((\<exists>e \<in> set (docs w). fst (fst e) = uid)
        \<and> (\<forall>e \<in> set (docs w). snd (fst e) \<noteq> []) \<longrightarrow>
        (\<exists>a d. ((uid, a), d) \<in> set (docs w)
           \<and> get_auth_url prov uid now new_id w None
               = (\<lparr>url = authorization_url prov (uid @ '':'' @ a), accountId = a\<rparr>, w)))
   \<and> (docs w = pre @ ((uid, a), d) # post
        \<and> (\<forall>e \<in> set pre. fst (fst e) \<noteq> uid) \<and> a \<noteq> [] \<longrightarrow>
        get_auth_url prov uid now new_id w None
          = (\<lparr>url = authorization_url prov (uid @ '':'' @ a), accountId = a\<rparr>, w))"
proof -
  have reuse: "get_auth_url prov uid now new_id w None
          = (\<lparr>url = authorization_url prov (uid @ '':'' @ b), accountId = b\<rparr>, w)"
    if st: "docs w = ys @ ((uid, b), d') # zs"
      and first: "\<forall>e \<in> set ys. fst (fst e) \<noteq> uid"
      and b: "b \<noteq> []" for ys b d' zs
  proof -
    have "get_existing_account_id uid (docs w) = Some b"
      unfolding st by (rule get_existing_first [OF first])
    then show ?thesis
      using b by (simp add: get_auth_url_def reuse_or_create_def state_of_def)
  qed
  show ?thesis
  proof (intro conjI impI)
    assume none: "\<forall>e \<in> set (docs w). fst (fst e) \<noteq> uid"
    then have ex: "get_existing_account_id uid (docs w) = None"
      by (simp add: get_existing_None_iff)
    have g: "get_auth_url prov uid now new_id w None =
          (\<lparr>url = authorization_url prov (uid @ '':'' @ new_id), accountId = new_id\<rparr>,
           w\<lparr>docs := set_merge (docs w) (uid, new_id) [''createdAt'' \<mapsto> ServerTime now]\<rparr>)"
      by (simp add: get_auth_url_def reuse_or_create_def ex ensure_account_doc_def state_of_def)
    show "fst (get_auth_url prov uid now new_id w None)
          = \<lparr>url = authorization_url prov (uid @ '':'' @ new_id), accountId = new_id\<rparr>"
      by (simp add: g)
    show "snapshot (docs (snd (get_auth_url prov uid now new_id w None))) (uid, new_id)
            = Some [''createdAt'' \<mapsto> ServerTime now]"
      by (simp add: g snapshot_set_merge no_own_docs_snapshot [OF none])
    show "\<forall>r. r \<noteq> (uid, new_id) \<longrightarrow>
              snapshot (docs (snd (get_auth_url prov uid now new_id w None))) r
                = snapshot (docs w) r"
      by (simp add: g snapshot_set_merge)
    show "calls (snd (get_auth_url prov uid now new_id w None)) = calls w"
      by (simp add: g)
  next
    assume h: "(\<exists>e \<in> set (docs w). fst (fst e) = uid)
        \<and> (\<forall>e \<in> set (docs w). snd (fst e) \<noteq> [])"
    then have "\<exists>e \<in> set (docs w). fst (fst e) = uid" by (rule conjunct1)
    then obtain ys e zs where st: "docs w = ys @ e # zs" and own: "fst (fst e) = uid"
      and first: "\<forall>y \<in> set ys. fst (fst y) \<noteq> uid"
      using split_list_first_prop [of "docs w" "\<lambda>e. fst (fst e) = uid"] by blast
    obtain b d' where e: "e = ((uid, b), d')"
      using own by (cases e) auto
    have mem: "((uid, b), d') \<in> set (docs w)"
      by (simp add: st e)
    with h have b: "b \<noteq> []" by fastforce
    have "get_auth_url prov uid now new_id w None
          = (\<lparr>url = authorization_url prov (uid @ '':'' @ b), accountId = b\<rparr>, w)"
      using st first b unfolding e by (rule reuse)
    with mem show "\<exists>a d. ((uid, a), d) \<in> set (docs w)
           \<and> get_auth_url prov uid now new_id w None
               = (\<lparr>url = authorization_url prov (uid @ '':'' @ a), accountId = a\<rparr>, w)"
      by blast
  next
    assume h: "docs w = pre @ ((uid, a), d) # post
        \<and> (\<forall>e \<in> set pre. fst (fst e) \<noteq> uid) \<and> a \<noteq> []"
    show "get_auth_url prov uid now new_id w None
          = (\<lparr>url = authorization_url prov (uid @ '':'' @ a), accountId = a\<rparr>, w)"
      by (rule reuse [OF conjunct1 [OF h] conjunct1 [OF conjunct2 [OF h]]
                 conjunct2 [OF conjunct2 [OF h]]])
  qed
qed

theorem begin_connection_placeholder_or_reuse_witness:
  "fst (get_auth_url prov0 ''u1'' 7 ''id-1'' w_empty None)
     = \<lparr>url = authorization_url prov0 ''u1:id-1'', accountId = ''id-1''\<rparr>
   \<and> snapshot (docs (snd (get_auth_url prov0 ''u1'' 7 ''id-1'' w_empty None))) (''u1'', ''id-1'')
       = Some [''createdAt'' \<mapsto> ServerTime 7]
   \<and> (\<exists>a d. ((''u1'', a), d) \<in> set (docs w_shared)
         \<and> get_auth_url prov0 ''u1'' 7 ''id-1'' w_shared None
             = (\<lparr>url = authorization_url prov0 (''u1'' @ '':'' @ a), accountId = a\<rparr>, w_shared))
   \<and> get_auth_url prov0 ''u1'' 7 ''id-1'' w_shared None
       = (\<lparr>url = authorization_url prov0 ''u1:a1'', accountId = ''a1''\<rparr>, w_shared)"
proof -
  have none: "\<forall>e \<in> set (docs w_empty). fst (fst e) \<noteq> ''u1''"
    by (simp add: w_empty_def)
  have some: "(\<exists>e \<in> set (docs w_shared). fst (fst e) = ''u1'')
        \<and> (\<forall>e \<in> set (docs w_shared). snd (fst e) \<noteq> [])"
    by (simp add: w_shared_def)
  have dec: "docs w_shared
               = [((''u0'', ''a0''), [''createdAt'' \<mapsto> ServerTime 1])]
                 @ ((''u1'', ''a1''), [''createdAt'' \<mapsto> ServerTime 5])
                 # [((''u1'', ''a2''), [''createdAt'' \<mapsto> ServerTime 6])]
        \<and> (\<forall>e \<in> set [((''u0'', ''a0''), [''createdAt'' \<mapsto> ServerTime 1])].
              fst (fst e) \<noteq> ''u1'')
        \<and> ''a1'' \<noteq> []"
    by (simp add: w_shared_def)
  note t1 = begin_connection_placeholder_or_reuse
         [where w = w_empty and uid = "''u1''" and prov = prov0 and now = 7
            and new_id = "''id-1''"]
  note t2 = begin_connection_placeholder_or_reuse
         [where w = w_shared and uid = "''u1''" and prov = prov0 and now = 7
            and new_id = "''id-1''" and a = "''a1''"
            and pre = "[((''u0'', ''a0''), [''createdAt'' \<mapsto> ServerTime 1])]"
            and d = "[''createdAt'' \<mapsto> ServerTime 5]"
            and post = "[((''u1'', ''a2''), [''createdAt'' \<mapsto> ServerTime 6])]"]
  note a = mp [OF conjunct1 [OF t1] none]
  note b = mp [OF conjunct1 [OF conjunct2 [OF t2]] some]
  note c = mp [OF conjunct2 [OF conjunct2 [OF t2]] dec]
  have a1: "fst (get_auth_url prov0 ''u1'' 7 ''id-1'' w_empty None)
     = \<lparr>url = authorization_url prov0 ''u1:id-1'', accountId = ''id-1''\<rparr>"
    using conjunct1 [OF a] by simp
  have a2: "snapshot (docs (snd (get_auth_url prov0 ''u1'' 7 ''id-1'' w_empty None))) (''u1'', ''id-1'')
       = Some [''createdAt'' \<mapsto> ServerTime 7]"
    by (rule conjunct1 [OF conjunct2 [OF a]])
  have c1: "get_auth_url prov0 ''u1'' 7 ''id-1'' w_shared None
       = (\<lparr>url = authorization_url prov0 ''u1:a1'', accountId = ''a1''\<rparr>, w_shared)"
    using c by simp
  from a1 a2 b c1 show ?thesis by (intro conjI)
qed

section \<open>Serving a stored access token\<close>

text \<open>
  Claim C9. For a connected record whose stored \<^verbatim>\<open>access_token\<close> is present (not
  \<^verbatim>\<open>None\<close>), \<^verbatim>\<open>get_service\<close> and \<^verbatim>\<open>get_credentials\<close> return the stored access
  and refresh tokens and leave the world as it was: no call to the provider, no write.
  A second call in the world the first one leaves, at any later time, returns the same
  tokens, again without a refresh. The stored expiry plays no part, so the statement
  holds in particular for every record whose token is not expired.
\<close>

theorem valid_token_served_without_refresh:
  assumes rec: "snapshot (docs w) r = Some d"
      and rt: "d ''refresh_token'' = Some rtok"
      and tok: "d ''access_token'' = Some tok"
      and present: "tok \<noteq> Null"
  shows "(doc_ref_for_account uid (docs w) account_id = Some (r, owner) \<longrightarrow>
            get_service prov uid now w account_id
              = (Inr \<lparr>token = tok, refresh_token = rtok, expiry = None\<rparr>, w)
          \<and> get_service prov uid now' (snd (get_service prov uid now w account_id)) account_id
              = (Inr \<lparr>token = tok, refresh_token = rtok, expiry = None\<rparr>, w))
       \<and> (credentials_ref uid (docs w) acc = Some r \<longrightarrow>
            get_credentials prov uid now w acc
              = (Inr (Some \<lparr>token = tok, refresh_token = rtok, expiry = None\<rparr>), w)
          \<and> get_credentials prov uid now' (snd (get_credentials prov uid now w acc)) acc
              = (Inr (Some \<lparr>token = tok, refresh_token = rtok, expiry = None\<rparr>), w))"
proof -
  have data: "to_dict_or_empty (docs w) r = d"
    by (simp add: to_dict_or_empty_def rec)
  have get: "dict_get d ''access_token'' = tok"
    by (simp add: dict_get_def tok)
  have serve: "build_and_refresh prov t w r d rtok
                 = (Inr \<lparr>token = tok, refresh_token = rtok, expiry = None\<rparr>, w)" for t
    using build_and_refresh_token_present [of d prov t w r rtok] present get by simp
  have s: "doc_ref_for_account uid (docs w) account_id = Some (r, owner) \<Longrightarrow>
           get_service prov uid t w account_id
             = (Inr \<lparr>token = tok, refresh_token = rtok, expiry = None\<rparr>, w)" for t
    by (simp add: get_service_def data rt serve)
  have c: "credentials_ref uid (docs w) acc = Some r \<Longrightarrow>
           get_credentials prov uid t w acc
             = (Inr (Some \<lparr>token = tok, refresh_token = rtok, expiry = None\<rparr>), w)" for t
    by (simp add: get_credentials_def data rt serve)
  show ?thesis
    using s c by simp
qed

theorem valid_token_served_without_refresh_witness:
  "get_service prov0 ''u1'' 100 w_stale ''a1''
     = (Inr \<lparr>token = Str ''a1'', refresh_token = Str ''r1'', expiry = None\<rparr>, w_stale)
   \<and> get_service prov0 ''u1'' 101 (snd (get_service prov0 ''u1'' 100 w_stale ''a1'')) ''a1''
     = (Inr \<lparr>token = Str ''a1'', refresh_token = Str ''r1'', expiry = None\<rparr>, w_stale)
   \<and> get_credentials prov0 ''u1'' 100 w_stale None
     = (Inr (Some \<lparr>token = Str ''a1'', refresh_token = Str ''r1'', expiry = None\<rparr>), w_stale)
   \<and> get_credentials prov0 ''u1'' 101 (snd (get_credentials prov0 ''u1'' 100 w_stale None)) None
     = (Inr (Some \<lparr>token = Str ''a1'', refresh_token = Str ''r1'', expiry = None\<rparr>), w_stale)"
proof -
  let ?d = "[''createdAt'' \<mapsto> ServerTime 5, ''refresh_token'' \<mapsto> Str ''r1'',
             ''access_token'' \<mapsto> Str ''a1'', ''expiry'' \<mapsto> IsoTime 3600]"
  have rec: "snapshot (docs w_stale) (''u1'', ''a1'') = Some ?d"
    by (simp add: w_stale_def snapshot_def)
  have rt: "?d ''refresh_token'' = Some (Str ''r1'')" by simp
  have tok: "?d ''access_token'' = Some (Str ''a1'')" by simp
  have present: "Str ''a1'' \<noteq> Null" by simp
  have r1: "doc_ref_for_account ''u1'' (docs w_stale) ''a1'' = Some ((''u1'', ''a1''), ''u1'')"
    by (simp add: w_stale_def doc_ref_for_account_def snapshot_def)
  have r2: "credentials_ref ''u1'' (docs w_stale) None = Some (''u1'', ''a1'')"
    by (simp add: w_stale_def credentials_ref_def first_own_ref_def)
  from valid_token_served_without_refresh [OF rec rt tok present,
         where uid = "''u1''" and account_id = "''a1''" and owner = "''u1''" and acc = None
           and prov = prov0 and now = 100 and now' = 101] r1 r2
  show ?thesis by blast
qed

section \<open>The two completion functions\<close>

text \<open>
  Claim C10 as stated fails, in each of its three parts. The state \<open>u1:a1:x\<close> is refused by
  \<^verbatim>\<open>save_refresh_token\<close> and accepted by \<^verbatim>\<open>handle_callback\<close>. When the exchange
  returns no refresh token and the record holds one, \<^verbatim>\<open>save_refresh_token\<close> succeeds
  and \<^verbatim>\<open>handle_callback\<close> fails. When both succeed, on the state \<open>u1:a1\<close>, the
  \<^verbatim>\<open>expiry\<close> they store is not the same value: \<^verbatim>\<open>isoformat()\<close> in the one,
  \<^verbatim>\<open>str\<close> in the other.
\<close>

theorem completions_differ:
  "fst (save_refresh_token prov0 w_pending ''c'' ''u1:a1:x'')
     = SaveRaised (ValueError ''too many values to unpack'')
   \<and> fst (handle_callback prov0 w_pending ''u1:a1:x'' ''c'') = Inr ''a1:x''
   \<and> fst (save_refresh_token prov_reconsent w_stale ''c'' ''u1:a1'') = SaveOk
   \<and> fst (handle_callback prov_reconsent w_stale ''u1:a1'' ''c'') = Inl NoRefreshTokenReturned
   \<and> fst (save_refresh_token prov0 w_pending ''c'' ''u1:a1'') = SaveOk
   \<and> fst (handle_callback prov0 w_pending ''u1:a1'' ''c'') = Inr ''a1''
   \<and> to_dict_or_empty (docs (snd (save_refresh_token prov0 w_pending ''c'' ''u1:a1'')))
        (''u1'', ''a1'') ''expiry'' = Some (IsoTime 3600)
   \<and> to_dict_or_empty (docs (snd (handle_callback prov0 w_pending ''u1:a1'' ''c'')))
        (''u1'', ''a1'') ''expiry'' = Some (PlainTime 3600)"
  by (simp add: handle_callback_def save_refresh_token_def py_split1_def prov_reconsent_def
        prov0_def w_stale_def w_pending_def to_dict_or_empty_def snapshot_def py_or_def
        dict_get_def Let_def expiry_iso_def expiry_str_def)

text \<open>
  Claim C10, amended. On a state without a colon both functions fail and leave the world
  as it was. On a state that splits into exactly two pieces \<open>uid\<close> and \<open>aid\<close>, and unless
  the exchange omits the refresh token while the stored record has one, the two agree:
  \<^verbatim>\<open>save_refresh_token\<close> succeeds exactly when \<^verbatim>\<open>handle_callback\<close> returns \<open>aid\<close>,
  the one fails exactly when the other does, they make the same calls to the provider,
  and afterwards the store holds the same documents with the same value in every field
  but \<^verbatim>\<open>expiry\<close>.
\<close>

theorem completions_agree:
  "(CHR '':'' \<notin> set s \<longrightarrow>
      fst (save_refresh_token prov w c s) \<noteq> SaveOk
      \<and> fst (handle_callback prov w s c) = Inl InvalidStateFormat
      \<and> snd (save_refresh_token prov w c s) = w
      \<and> snd (handle_callback prov w s c) = w)
   \<and> (py_split (CHR '':'') s = [uid, aid]
       \<and> (\<forall>creds. fetch_token prov s c = Inr creds \<and> \<not> truthy (refresh_token creds) \<longrightarrow>
             \<not> truthy (dict_get (to_dict_or_empty (docs w) (uid, aid)) ''refresh_token''))
      \<longrightarrow>
        (fst (save_refresh_token prov w c s) = SaveOk
           \<longleftrightarrow> fst (handle_callback prov w s c) = Inr aid)
      \<and> (fst (save_refresh_token prov w c s) \<noteq> SaveOk
           \<longleftrightarrow> (\<exists>e. fst (handle_callback prov w s c) = Inl e))
      \<and> calls (snd (save_refresh_token prov w c s)) = calls (snd (handle_callback prov w s c))
      \<and> map fst (docs (snd (save_refresh_token prov w c s)))
          = map fst (docs (snd (handle_callback prov w s c)))
      \<and> (\<forall>r k. k \<noteq> ''expiry'' \<longrightarrow>
            to_dict_or_empty (docs (snd (save_refresh_token prov w c s))) r k
              = to_dict_or_empty (docs (snd (handle_callback prov w s c))) r k))"
proof (rule conjI)
  show "CHR '':'' \<notin> set s \<longrightarrow>
      fst (save_refresh_token prov w c s) \<noteq> SaveOk
      \<and> fst (handle_callback prov w s c) = Inl InvalidStateFormat
      \<and> snd (save_refresh_token prov w c s) = w
      \<and> snd (handle_callback prov w s c) = w"
    by (simp add: save_refresh_token_no_sep handle_callback_def)
next
  let ?goal = "(fst (save_refresh_token prov w c s) = SaveOk
           \<longleftrightarrow> fst (handle_callback prov w s c) = Inr aid)
      \<and> (fst (save_refresh_token prov w c s) \<noteq> SaveOk
           \<longleftrightarrow> (\<exists>e. fst (handle_callback prov w s c) = Inl e))
      \<and> calls (snd (save_refresh_token prov w c s)) = calls (snd (handle_callback prov w s c))
      \<and> map fst (docs (snd (save_refresh_token prov w c s)))
          = map fst (docs (snd (handle_callback prov w s c)))
      \<and> (\<forall>r k. k \<noteq> ''expiry'' \<longrightarrow>
            to_dict_or_empty (docs (snd (save_refresh_token prov w c s))) r k
              = to_dict_or_empty (docs (snd (handle_callback prov w s c))) r k)"
  have ?goal
    if sp: "py_split (CHR '':'') s = [uid, aid]"
    and h: "\<forall>creds. fetch_token prov s c = Inr creds \<and> \<not> truthy (refresh_token creds) \<longrightarrow>
             \<not> truthy (dict_get (to_dict_or_empty (docs w) (uid, aid)) ''refresh_token'')"
  proof (cases "fetch_token prov s c")
    case (Inl e)
    show ?thesis by (simp add: completions_exchange_raises [OF sp Inl])
  next
    case ex: (Inr creds)
    show ?thesis
    proof (cases "truthy (refresh_token creds)")
      case False
      with h ex
      have st: "\<not> truthy (dict_get (to_dict_or_empty (docs w) (uid, aid)) ''refresh_token'')"
        by simp
      show ?thesis by (simp add: completions_no_refresh_token [OF sp ex False st])
    next
      case True
      show ?thesis
      proof (cases "get_profile prov creds")
        case (Inl e)
        show ?thesis by (simp add: completions_profile_raises [OF sp ex True Inl])
      next
        case (Inr email)
        have names: "map fst (set_merge (docs w) (uid, aid)
                        [''refresh_token'' \<mapsto> refresh_token creds,
                         ''access_token'' \<mapsto> token creds,
                         ''expiry'' \<mapsto> expiry_iso creds,
                         ''emailAddress'' \<mapsto> email_field email,
                         ''name'' \<mapsto> name_field email])
                  = map fst (set_merge (docs w) (uid, aid)
                        [''refresh_token'' \<mapsto> refresh_token creds,
                         ''access_token'' \<mapsto> token creds,
                         ''expiry'' \<mapsto> expiry_str creds,
                         ''emailAddress'' \<mapsto> email_field email,
                         ''name'' \<mapsto> name_field email])"
          by (rule map_fst_set_merge)
        have fields: "to_dict_or_empty (set_merge (docs w) (uid, aid)
                        [''refresh_token'' \<mapsto> refresh_token creds,
                         ''access_token'' \<mapsto> token creds,
                         ''expiry'' \<mapsto> expiry_iso creds,
                         ''emailAddress'' \<mapsto> email_field email,
                         ''name'' \<mapsto> name_field email]) r k
                  = to_dict_or_empty (set_merge (docs w) (uid, aid)
                        [''refresh_token'' \<mapsto> refresh_token creds,
                         ''access_token'' \<mapsto> token creds,
                         ''expiry'' \<mapsto> expiry_str creds,
                         ''emailAddress'' \<mapsto> email_field email,
                         ''name'' \<mapsto> name_field email]) r k"
          if "k \<noteq> ''expiry''" for r k
          by (rule merge_agree_on_field) (use that in simp)
        show ?thesis
          using names fields by (simp add: completions_success [OF sp ex True Inr])
      qed
    qed
  qed
  then show "py_split (CHR '':'') s = [uid, aid]
       \<and> (\<forall>creds. fetch_token prov s c = Inr creds \<and> \<not> truthy (refresh_token creds) \<longrightarrow>
             \<not> truthy (dict_get (to_dict_or_empty (docs w) (uid, aid)) ''refresh_token''))
      \<longrightarrow> ?goal"
    by (rule_tac impI) (erule conjE, assumption)
qed

theorem completions_agree_witness:
  "fst (handle_callback prov0 w_pending ''u1a1'' ''c'') = Inl InvalidStateFormat
   \<and> snd (save_refresh_token prov0 w_pending ''c'' ''u1a1'') = w_pending
   \<and> calls (snd (save_refresh_token prov0 w_pending ''c'' ''u1:a1''))
       = calls (snd (handle_callback prov0 w_pending ''u1:a1'' ''c''))
   \<and> map fst (docs (snd (save_refresh_token prov0 w_pending ''c'' ''u1:a1'')))
       = map fst (docs (snd (handle_callback prov0 w_pending ''u1:a1'' ''c'')))
   \<and> calls (snd (save_refresh_token prov_reconsent w_pending ''c'' ''u1:a1''))
       = calls (snd (handle_callback prov_reconsent w_pending ''u1:a1'' ''c''))"
proof -
  have no: "CHR '':'' \<notin> set ''u1a1''" by simp
  have sp: "py_split (CHR '':'') ''u1:a1'' = [''u1'', ''a1'']" by simp
  have h0: "\<forall>creds. fetch_token prov0 ''u1:a1'' ''c'' = Inr creds \<and> \<not> truthy (refresh_token creds) \<longrightarrow>
             \<not> truthy (dict_get (to_dict_or_empty (docs w_pending) (''u1'', ''a1'')) ''refresh_token'')"
    by (simp add: prov0_def w_pending_def to_dict_or_empty_def snapshot_def dict_get_def)
  have h1: "\<forall>creds. fetch_token prov_reconsent ''u1:a1'' ''c'' = Inr creds \<and> \<not> truthy (refresh_token creds) \<longrightarrow>
             \<not> truthy (dict_get (to_dict_or_empty (docs w_pending) (''u1'', ''a1'')) ''refresh_token'')"
    by (simp add: w_pending_def to_dict_or_empty_def snapshot_def dict_get_def)
  note a = mp [OF conjunct1 [OF completions_agree
                 [where s = "''u1a1''" and prov = prov0 and w = w_pending and c = "''c''"]] no]
  note b = mp [OF conjunct2 [OF completions_agree
                 [where s = "''u1:a1''" and uid = "''u1''" and aid = "''a1''" and prov = prov0
                    and c = "''c''" and w = w_pending]] conjI [OF sp h0]]
  note c = mp [OF conjunct2 [OF completions_agree
                 [where s = "''u1:a1''" and uid = "''u1''" and aid = "''a1''"
                    and prov = prov_reconsent and c = "''c''" and w = w_pending]] conjI [OF sp h1]]
  from a b c show ?thesis by simp
qed

end
